theory Spec2Isabelle
  imports Complex_Main
begin

section \<open>Parameters and helpers of the contract (con\_privacy\_token.py)\<close>

text \<open>
  Python integers are modelled by \<^typ>\<open>int\<close>; Python's \<open>%\<close> and \<open>>> 1\<close> on them are
  \<open>mod\<close> and \<open>div 2\<close> (both floor towards minus infinity, as in HOL).  A failed
  \<open>assert\<close> is the error value \<open>AssertionError msg\<close> with the message of the source.
\<close>

datatype error = AssertionError string | ValueError string | ZeroDivisionError

definition p :: int where
  "p = 2 ^ 255 - 19"

definition ZERO_COMMITMENT :: int where
  "ZERO_COMMITMENT = 1"

text \<open>
  The host supplies the hash and the printing of values.  \<open>sha3_int s\<close> stands for
  \<open>int(hashlib.sha3(s)[:32], 16)\<close>, the first 32 hex digits of the digest read as a
  natural number; \<open>py_str\<close> is \<open>str\<close> and \<open>py_float\<close> is \<open>float\<close> on the values that
  are committed to.  Decimal amounts are modelled by exact rationals.
\<close>

record 'v host =
  sha3_int :: "string \<Rightarrow> nat"
  py_str :: "'v \<Rightarrow> string"
  py_float :: "'v \<Rightarrow> rat"

definition bind_err :: "error + 'a \<Rightarrow> ('a \<Rightarrow> error + 'b) \<Rightarrow> error + 'b" where
  "bind_err m f = (case m of Inl e \<Rightarrow> Inl e | Inr x \<Rightarrow> f x)"

definition map_to_base :: "('v, 'z) host_scheme \<Rightarrow> string \<Rightarrow> int" where
  "map_to_base H tag = int (sha3_int H (''XCTOK:gen:'' @ tag)) mod (p - 3) + 2"

text \<open>The body of the \<open>while exponent > 0\<close> loop of \<open>mod_exp\<close>, on (result, base, exponent).\<close>

function mod_exp_loop :: "int \<Rightarrow> int \<Rightarrow> int \<Rightarrow> int \<Rightarrow> int" where
  "mod_exp_loop result base exponent modulus =
     (if exponent > 0
      then mod_exp_loop (if exponent mod 2 = 1 then (result * base) mod modulus else result)
             ((base * base) mod modulus) (exponent div 2) modulus
      else result)"
  by pat_completeness auto
termination
  by (relation "measure (\<lambda>(result, base, exponent, modulus). nat exponent)") auto

declare mod_exp_loop.simps [simp del]

text \<open>\<open>base % modulus\<close> raises ZeroDivisionError for a zero modulus, after the early return.\<close>

definition mod_exp :: "int \<Rightarrow> int \<Rightarrow> int \<Rightarrow> error + int" where
  "mod_exp base exponent modulus =
     (if exponent = 0 then Inr 1
      else if modulus = 0 then Inl ZeroDivisionError
      else Inr (mod_exp_loop 1 (base mod modulus) exponent modulus))"

definition mod_inverse :: "int \<Rightarrow> int \<Rightarrow> error + int" where
  "mod_inverse x modulus = mod_exp x (modulus - 2) modulus"

definition g :: "('v, 'z) host_scheme \<Rightarrow> int" where
  "g H = map_to_base H ''g''"

definition h :: "('v, 'z) host_scheme \<Rightarrow> int" where
  "h H = map_to_base H ''h''"

text \<open>The module-level \<open>assert ..., "Bad generators"\<close>: the contract loads only when it holds.\<close>

definition generators_ok :: "('v, 'z) host_scheme \<Rightarrow> bool" where
  "generators_ok H = (g H \<noteq> h H \<and> g H \<notin> {1, p - 1} \<and> h H \<notin> {1, p - 1})"

definition create_commitment :: "('v, 'z) host_scheme \<Rightarrow> 'v \<Rightarrow> int \<Rightarrow> error + int" where
  "create_commitment H val blinding =
     (let val_hash = int (sha3_int H (''VAL|'' @ py_str H val)) mod (p - 1) in
      bind_err (mod_exp (g H) val_hash p) (\<lambda>gv.
      bind_err (mod_exp (h H) (blinding mod (p - 1)) p) (\<lambda>hb.
      Inr ((gv * hb) mod p))))"

definition verify_commitment_addition :: "int \<Rightarrow> int \<Rightarrow> int \<Rightarrow> bool" where
  "verify_commitment_addition old_commitment amount_commitment new_commitment =
     (let expected_new = (old_commitment * amount_commitment) mod p
      in new_commitment = expected_new)"

definition verify_commitment_subtraction :: "int \<Rightarrow> int \<Rightarrow> int \<Rightarrow> bool" where
  "verify_commitment_subtraction old_commitment new_commitment amount_commitment =
     (let expected_old = (new_commitment * amount_commitment) mod p
      in old_commitment = expected_old)"

section \<open>State of the ledger\<close>

text \<open>
  The four \<open>Hash\<close> collections and the \<open>Variable\<close> of the contract.  A \<open>Hash\<close> is a map
  with overwrite semantics whose absent keys read as \<open>None\<close>.  Of \<open>metadata\<close> the five
  keys written by \<open>seed\<close> are kept, each at the type \<open>seed\<close> gives it.  The approval
  record's key \<open>'commitment'\<close> is the field \<open>approval_commitment\<close>.  Emitted events are
  appended to \<open>events\<close>; the amount commitment is kept as the integer that the source
  renders with \<open>hex\<close>.
\<close>

record balance_record =
  commitment :: int
  last_updated :: int
  updates :: int

record approval_record =
  approval_commitment :: int
  approved_at :: int

record metadata_record =
  name :: string
  symbol :: string
  operator :: string
  total_supply :: rat
  supply_commitment :: int

datatype event =
    ConfidentialTransferEvent string string int int
  | ConfidentialApproveEvent string string int int
  | MintCommitmentEvent string rat int int
  | BurnCommitmentEvent string rat int int

record ledger =
  balance_commitments :: "string \<rightharpoonup> balance_record"
  approvals :: "string \<times> string \<rightharpoonup> approval_record"
  metadata :: metadata_record
  nonces :: "string \<rightharpoonup> int"
  next_tx_id :: int
  events :: "event list"

text \<open>What the host hands to a call: \<open>ctx.caller\<close> and \<open>block_num\<close>.\<close>

record env =
  caller :: string
  block_num :: int

definition seed :: "string \<Rightarrow> ledger" where
  "seed ctx_caller =
     \<lparr> balance_commitments = Map.empty,
       approvals = Map.empty,
       metadata = \<lparr> name = ''Confidential Commitment Token'', symbol = ''CCT'',
                    operator = ctx_caller, total_supply = 0,
                    supply_commitment = ZERO_COMMITMENT \<rparr>,
       nonces = Map.empty,
       next_tx_id = 1,
       events = [] \<rparr>"

subsection \<open>Views\<close>

record balance_view =
  exists :: bool
  view_commitment :: int
  view_last_updated :: int
  view_updates :: int

definition get_balance_commitment :: "ledger \<Rightarrow> string \<Rightarrow> balance_view" where
  "get_balance_commitment s address =
     (case balance_commitments s address of
        None \<Rightarrow> \<lparr> exists = False, view_commitment = ZERO_COMMITMENT,
                  view_last_updated = 0, view_updates = 0 \<rparr>
      | Some data \<Rightarrow> \<lparr> exists = True, view_commitment = commitment data,
                       view_last_updated = last_updated data, view_updates = updates data \<rparr>)"

definition get_nonce :: "ledger \<Rightarrow> string \<Rightarrow> int" where
  "get_nonce s address = (case nonces s address of None \<Rightarrow> 0 | Some n \<Rightarrow> n)"

subsection \<open>Mutating operations\<close>

text \<open>
  An exported operation either returns, or an \<open>assert\<close> raises in the middle of its body.
  \<open>Raised e s\<close> carries the store as the body had written it when the exception left the
  function; \<open>Returned s\<close> is the store after the last statement.
\<close>

datatype outcome = Raised error ledger | Returned ledger

fun returned :: "outcome \<Rightarrow> bool" where
  "returned (Returned s) = True"
| "returned (Raised e s) = False"

fun store_of :: "outcome \<Rightarrow> ledger" where
  "store_of (Returned s) = s"
| "store_of (Raised e s) = s"

definition bump_nonce :: "ledger \<Rightarrow> string \<Rightarrow> int \<Rightarrow> error + ledger" where
  "bump_nonce s addr provided =
     (let current = (case nonces s addr of None \<Rightarrow> 0 | Some c \<Rightarrow> c) in
      if provided = current + 1
      then Inr (s\<lparr> nonces := (nonces s)(addr \<mapsto> provided) \<rparr>)
      else Inl (AssertionError ''Bad nonce''))"

definition next_tx :: "ledger \<Rightarrow> int \<times> ledger" where
  "next_tx s = (let tid = next_tx_id s in (tid, s\<lparr> next_tx_id := tid + 1 \<rparr>))"

definition emit :: "event \<Rightarrow> ledger \<Rightarrow> ledger" where
  "emit ev s = s\<lparr> events := events s @ [ev] \<rparr>"

text \<open>\<open>data['commitment'] if data else ZERO_COMMITMENT\<close> and \<open>(0 if data is None else data['updates']) + 1\<close>.\<close>

definition current_commitment :: "balance_record option \<Rightarrow> int" where
  "current_commitment data = (case data of None \<Rightarrow> ZERO_COMMITMENT | Some d \<Rightarrow> commitment d)"

definition next_updates :: "balance_record option \<Rightarrow> int" where
  "next_updates data = (case data of None \<Rightarrow> 0 | Some d \<Rightarrow> updates d) + 1"

definition write_balance :: "string \<Rightarrow> balance_record \<Rightarrow> ledger \<Rightarrow> ledger" where
  "write_balance address r s = s\<lparr> balance_commitments := (balance_commitments s)(address \<mapsto> r) \<rparr>"

definition confidential_transfer ::
  "env \<Rightarrow> string \<Rightarrow> int \<Rightarrow> int \<Rightarrow> int \<Rightarrow> int \<Rightarrow> ledger \<Rightarrow> outcome" where
  "confidential_transfer e to amount_commitment new_sender_commitment new_receiver_commitment nonce s =
     (if to = caller e then Raised (AssertionError ''Cannot transfer to self'') s
      else case bump_nonce s (caller e) nonce of
        Inl err \<Rightarrow> Raised err s
      | Inr s1 \<Rightarrow>
          let sender_data = balance_commitments s1 (caller e);
              receiver_data = balance_commitments s1 to;
              current_sender_commitment = current_commitment sender_data;
              current_receiver_commitment = current_commitment receiver_data
          in if \<not> verify_commitment_subtraction current_sender_commitment new_sender_commitment amount_commitment
             then Raised (AssertionError ''Sender commitment mismatch'') s1
             else if \<not> verify_commitment_addition current_receiver_commitment amount_commitment new_receiver_commitment
             then Raised (AssertionError ''Receiver commitment mismatch'') s1
             else
               let s2 = write_balance (caller e)
                          \<lparr> commitment = new_sender_commitment, last_updated = block_num e,
                            updates = next_updates sender_data \<rparr> s1;
                   s3 = write_balance to
                          \<lparr> commitment = new_receiver_commitment, last_updated = block_num e,
                            updates = next_updates receiver_data \<rparr> s2;
                   (tx_id, s4) = next_tx s3
               in Returned (emit (ConfidentialTransferEvent (caller e) to amount_commitment tx_id) s4))"

definition confidential_approve :: "env \<Rightarrow> string \<Rightarrow> int \<Rightarrow> int \<Rightarrow> ledger \<Rightarrow> outcome" where
  "confidential_approve e spender allowance_commitment nonce s =
     (case bump_nonce s (caller e) nonce of
        Inl err \<Rightarrow> Raised err s
      | Inr s1 \<Rightarrow>
          let s2 = s1\<lparr> approvals := (approvals s1)((caller e, spender) \<mapsto>
                         \<lparr> approval_commitment = allowance_commitment,
                           approved_at = block_num e \<rparr>) \<rparr>;
              (tx_id, s3) = next_tx s2
          in Returned (emit (ConfidentialApproveEvent (caller e) spender allowance_commitment tx_id) s3))"

definition confidential_transfer_from ::
  "env \<Rightarrow> string \<Rightarrow> string \<Rightarrow> int \<Rightarrow> int \<Rightarrow> int \<Rightarrow> int \<Rightarrow> int \<Rightarrow> ledger \<Rightarrow> outcome" where
  "confidential_transfer_from e owner to amount_commitment new_owner_commitment
       new_receiver_commitment new_allowance_commitment nonce s =
     (if to = owner then Raised (AssertionError ''Use confidential_transfer for self to self'') s
      else case bump_nonce s (caller e) nonce of
        Inl err \<Rightarrow> Raised err s
      | Inr s1 \<Rightarrow>
         (case balance_commitments s1 owner of
            None \<Rightarrow> Raised (AssertionError ''Owner has no commitment'') s1
          | Some owner_data \<Rightarrow>
              let receiver_data = balance_commitments s1 to;
                  current_owner_commitment = commitment owner_data;
                  current_receiver_commitment = current_commitment receiver_data
              in (case approvals s1 (owner, caller e) of
                    None \<Rightarrow> Raised (AssertionError ''No approval for spender'') s1
                  | Some approval \<Rightarrow>
                      let current_allowance_commitment = approval_commitment approval in
                      if \<not> verify_commitment_subtraction current_owner_commitment new_owner_commitment amount_commitment
                      then Raised (AssertionError ''Owner commitment mismatch'') s1
                      else if \<not> verify_commitment_addition current_receiver_commitment amount_commitment new_receiver_commitment
                      then Raised (AssertionError ''Receiver commitment mismatch'') s1
                      else if \<not> verify_commitment_subtraction current_allowance_commitment new_allowance_commitment amount_commitment
                      then Raised (AssertionError ''Allowance commitment mismatch'') s1
                      else
                        let s2 = write_balance owner
                                   \<lparr> commitment = new_owner_commitment, last_updated = block_num e,
                                     updates = updates owner_data + 1 \<rparr> s1;
                            s3 = write_balance to
                                   \<lparr> commitment = new_receiver_commitment, last_updated = block_num e,
                                     updates = next_updates receiver_data \<rparr> s2;
                            s4 = s3\<lparr> approvals := (approvals s3)((owner, caller e) \<mapsto>
                                       \<lparr> approval_commitment = new_allowance_commitment,
                                         approved_at = approved_at approval \<rparr>) \<rparr>;
                            (tx_id, s5) = next_tx s4
                        in Returned (emit (ConfidentialTransferEvent owner to amount_commitment tx_id) s5))))"

text \<open>
  \<open>metadata['total_supply'] or 0.0\<close> is the stored number itself (a zero is replaced by
  zero); \<open>metadata['supply_commitment'] or ZERO_COMMITMENT\<close> replaces a stored zero by one.
\<close>

definition supply_cmt_or_zero :: "ledger \<Rightarrow> int" where
  "supply_cmt_or_zero s =
     (if supply_commitment (metadata s) = 0 then ZERO_COMMITMENT
      else supply_commitment (metadata s))"

definition mint :: "env \<Rightarrow> string \<Rightarrow> rat \<Rightarrow> int \<Rightarrow> int \<Rightarrow> int \<Rightarrow> ledger \<Rightarrow> outcome" where
  "mint e to amount amount_commitment new_receiver_commitment nonce s =
     (if caller e \<noteq> operator (metadata s) then Raised (AssertionError ''Only operator can mint'') s
      else case bump_nonce s (caller e) nonce of
        Inl err \<Rightarrow> Raised err s
      | Inr s1 \<Rightarrow>
          let receiver_data = balance_commitments s1 to;
              current_receiver_commitment = current_commitment receiver_data
          in if \<not> verify_commitment_addition current_receiver_commitment amount_commitment new_receiver_commitment
             then Raised (AssertionError ''Receiver commitment mismatch'') s1
             else
               let s2 = write_balance to
                          \<lparr> commitment = new_receiver_commitment, last_updated = block_num e,
                            updates = next_updates receiver_data \<rparr> s1;
                   s3 = s2\<lparr> metadata := (metadata s2)\<lparr> total_supply :=
                              (if total_supply (metadata s2) = 0 then 0 else total_supply (metadata s2))
                                + amount \<rparr> \<rparr>;
                   supply_cmt = supply_cmt_or_zero s3;
                   s4 = s3\<lparr> metadata := (metadata s3)\<lparr> supply_commitment :=
                              (supply_cmt * amount_commitment) mod p \<rparr> \<rparr>;
                   (tx_id, s5) = next_tx s4
               in Returned (emit (MintCommitmentEvent to amount amount_commitment tx_id) s5))"

definition burn :: "env \<Rightarrow> string \<Rightarrow> rat \<Rightarrow> int \<Rightarrow> int \<Rightarrow> int \<Rightarrow> ledger \<Rightarrow> outcome" where
  "burn e from_address amount amount_commitment new_from_commitment nonce s =
     (if \<not> (caller e = from_address \<or> caller e = operator (metadata s))
      then Raised (AssertionError ''Not authorized to burn'') s
      else case bump_nonce s (caller e) nonce of
        Inl err \<Rightarrow> Raised err s
      | Inr s1 \<Rightarrow>
         (case balance_commitments s1 from_address of
            None \<Rightarrow> Raised (AssertionError ''No commitment to burn from'') s1
          | Some from_data \<Rightarrow>
              let current_from_commitment = commitment from_data in
              if \<not> verify_commitment_subtraction current_from_commitment new_from_commitment amount_commitment
              then Raised (AssertionError ''From commitment mismatch'') s1
              else
                let s2 = write_balance from_address
                           \<lparr> commitment = new_from_commitment, last_updated = block_num e,
                             updates = updates from_data + 1 \<rparr> s1;
                    s3 = s2\<lparr> metadata := (metadata s2)\<lparr> total_supply :=
                               (if total_supply (metadata s2) = 0 then 0 else total_supply (metadata s2))
                                 - amount \<rparr> \<rparr>;
                    supply_cmt = supply_cmt_or_zero s3
                in (case mod_inverse (amount_commitment mod p) p of
                      Inl err \<Rightarrow> Raised err s3
                    | Inr inv_amt \<Rightarrow>
                        let s4 = s3\<lparr> metadata := (metadata s3)\<lparr> supply_commitment :=
                                   (supply_cmt * inv_amt) mod p \<rparr> \<rparr>;
                            (tx_id, s5) = next_tx s4
                        in Returned (emit (BurnCommitmentEvent from_address amount amount_commitment tx_id) s5))))"

text \<open>The five exported mutating operations as one call type, with the nonce each presents.\<close>

datatype operation =
    ConfidentialTransfer string int int int int
  | ConfidentialApprove string int int
  | ConfidentialTransferFrom string string int int int int int
  | Mint string rat int int int
  | Burn string rat int int int

fun exec :: "env \<Rightarrow> operation \<Rightarrow> ledger \<Rightarrow> outcome" where
  "exec e (ConfidentialTransfer to ac ns nr n) s = confidential_transfer e to ac ns nr n s"
| "exec e (ConfidentialApprove spender ac n) s = confidential_approve e spender ac n s"
| "exec e (ConfidentialTransferFrom owner to ac no nr na n) s =
     confidential_transfer_from e owner to ac no nr na n s"
| "exec e (Mint to amount ac nr n) s = mint e to amount ac nr n s"
| "exec e (Burn from_address amount ac nf n) s = burn e from_address amount ac nf n s"

fun nonce_of :: "operation \<Rightarrow> int" where
  "nonce_of (ConfidentialTransfer to ac ns nr n) = n"
| "nonce_of (ConfidentialApprove spender ac n) = n"
| "nonce_of (ConfidentialTransferFrom owner to ac no nr na n) = n"
| "nonce_of (Mint to amount ac nr n) = n"
| "nonce_of (Burn from_address amount ac nf n) = n"

section \<open>Notions used to state the properties of the ledger\<close>

text \<open>A field element: an integer in \<open>[0, p)\<close>.\<close>

definition in_field :: "int \<Rightarrow> bool" where
  "in_field c = (0 \<le> c \<and> c < p)"

text \<open>
  The commitment an operation submits for the debited side (the new sender, owner or
  burnt-from commitment) lies in the field; operations with no debited side qualify.
\<close>

fun debit_in_field :: "operation \<Rightarrow> bool" where
  "debit_in_field (ConfidentialTransfer to ac ns nr n) = in_field ns"
| "debit_in_field (ConfidentialApprove spender ac n) = True"
| "debit_in_field (ConfidentialTransferFrom owner to ac no nr na n) = in_field no"
| "debit_in_field (Mint to amount ac nr n) = True"
| "debit_in_field (Burn from_address amount ac nf n) = in_field nf"

text \<open>
  The states reached from the seeded state by calls that return, each call an admitted
  operation made by any caller at any height.
\<close>

inductive reachable :: "(operation \<Rightarrow> bool) \<Rightarrow> string \<Rightarrow> ledger \<Rightarrow> bool"
  for admitted :: "operation \<Rightarrow> bool" and ctx_caller :: string where
  reachable_seed: "reachable admitted ctx_caller (seed ctx_caller)"
| reachable_step: "reachable admitted ctx_caller s \<Longrightarrow> admitted opn \<Longrightarrow>
     exec e opn s = Returned s' \<Longrightarrow> reachable admitted ctx_caller s'"

text \<open>
  The \<open>assert\<close> that stands before \<open>bump_nonce\<close> in an operation (the self-target check
  of the two transfers, the authorization check of mint and burn): its error when it
  fails, \<open>None\<close> when it passes or the operation has none.
\<close>

fun guard_failure :: "env \<Rightarrow> operation \<Rightarrow> ledger \<Rightarrow> error option" where
  "guard_failure e (ConfidentialTransfer to ac ns nr n) s =
     (if to = caller e then Some (AssertionError ''Cannot transfer to self'') else None)"
| "guard_failure e (ConfidentialApprove spender ac n) s = None"
| "guard_failure e (ConfidentialTransferFrom owner to ac no nr na n) s =
     (if to = owner then Some (AssertionError ''Use confidential_transfer for self to self'') else None)"
| "guard_failure e (Mint to amount ac nr n) s =
     (if caller e \<noteq> operator (metadata s) then Some (AssertionError ''Only operator can mint'') else None)"
| "guard_failure e (Burn from_address amount ac nf n) s =
     (if \<not> (caller e = from_address \<or> caller e = operator (metadata s))
      then Some (AssertionError ''Not authorized to burn'') else None)"

text \<open>The errors raised before \<open>bump_nonce\<close> has assigned \<open>nonces[addr]\<close>.\<close>

definition before_nonce_write :: "error \<Rightarrow> bool" where
  "before_nonce_write err =
     (err = AssertionError ''Cannot transfer to self''
      \<or> err = AssertionError ''Use confidential_transfer for self to self''
      \<or> err = AssertionError ''Only operator can mint''
      \<or> err = AssertionError ''Not authorized to burn''
      \<or> err = AssertionError ''Bad nonce'')"

text \<open>
  The \<open>assert\<close>s that stand after \<open>bump_nonce\<close> in an operation, in the order of the
  source: the existence checks of transfer-from and burn and the algebraic checks.  They
  read the balance and approval records, which \<open>bump_nonce\<close> does not write.  The result is
  the error of the first that fails, \<open>None\<close> when all pass.
\<close>

fun check_failure :: "env \<Rightarrow> operation \<Rightarrow> ledger \<Rightarrow> error option" where
  "check_failure e (ConfidentialTransfer to ac ns nr n) s =
     (if \<not> verify_commitment_subtraction (current_commitment (balance_commitments s (caller e))) ns ac
      then Some (AssertionError ''Sender commitment mismatch'')
      else if \<not> verify_commitment_addition (current_commitment (balance_commitments s to)) ac nr
      then Some (AssertionError ''Receiver commitment mismatch'')
      else None)"
| "check_failure e (ConfidentialApprove spender ac n) s = None"
| "check_failure e (ConfidentialTransferFrom owner to ac no nr na n) s =
     (case balance_commitments s owner of
        None \<Rightarrow> Some (AssertionError ''Owner has no commitment'')
      | Some owner_data \<Rightarrow>
         (case approvals s (owner, caller e) of
            None \<Rightarrow> Some (AssertionError ''No approval for spender'')
          | Some approval \<Rightarrow>
              if \<not> verify_commitment_subtraction (commitment owner_data) no ac
              then Some (AssertionError ''Owner commitment mismatch'')
              else if \<not> verify_commitment_addition (current_commitment (balance_commitments s to)) ac nr
              then Some (AssertionError ''Receiver commitment mismatch'')
              else if \<not> verify_commitment_subtraction (approval_commitment approval) na ac
              then Some (AssertionError ''Allowance commitment mismatch'')
              else None))"
| "check_failure e (Mint to amount ac nr n) s =
     (if \<not> verify_commitment_addition (current_commitment (balance_commitments s to)) ac nr
      then Some (AssertionError ''Receiver commitment mismatch'')
      else None)"
| "check_failure e (Burn from_address amount ac nf n) s =
     (case balance_commitments s from_address of
        None \<Rightarrow> Some (AssertionError ''No commitment to burn from'')
      | Some from_data \<Rightarrow>
          if \<not> verify_commitment_subtraction (commitment from_data) nf ac
          then Some (AssertionError ''From commitment mismatch'')
          else None)"

text \<open>
  The first failing check of a call, in the order in which the operation's body runs
  them: the guard, the nonce check of \<open>bump_nonce\<close>, then the checks after it.
\<close>

definition first_failure :: "env \<Rightarrow> operation \<Rightarrow> ledger \<Rightarrow> error option" where
  "first_failure e opn s =
     (case guard_failure e opn s of
        Some err \<Rightarrow> Some err
      | None \<Rightarrow>
          if nonce_of opn \<noteq> get_nonce s (caller e) + 1 then Some (AssertionError ''Bad nonce'')
          else check_failure e opn s)"

text \<open>Calls applied one after another, up to the first that raises.\<close>

fun run_calls :: "(env \<times> operation) list \<Rightarrow> ledger \<Rightarrow> outcome" where
  "run_calls [] s = Returned s"
| "run_calls ((e, opn) # calls) s =
     (case exec e opn s of Raised err s' \<Rightarrow> Raised err s' | Returned s' \<Rightarrow> run_calls calls s')"

text \<open>
  A mint to alice, alice's approval of bob at height 2, and bob's transfer-from to
  charlie at height 3, all with amount commitment 1.
\<close>

definition scenario_d :: "(env \<times> operation) list" where
  "scenario_d =
     [(\<lparr>caller = ''operator'', block_num = 1\<rparr>, Mint ''alice'' 6 1 1 1),
      (\<lparr>caller = ''alice'', block_num = 2\<rparr>, ConfidentialApprove ''bob'' 1 1),
      (\<lparr>caller = ''bob'', block_num = 3\<rparr>, ConfidentialTransferFrom ''alice'' ''charlie'' 1 1 1 1 1)]"

section \<open>The algebra verifier\<close>

text \<open>
  C6: for every field element \<open>c\<close> and every amount commitment \<open>a\<close>,
  \<open>verify_commitment_addition(c, a, (c*a) mod p)\<close> is true and
  \<open>verify_commitment_subtraction((c*a) mod p, c, a)\<close> is true.  Neither needs a bound on
  \<open>c\<close> or \<open>a\<close>.
\<close>

theorem verify_round_trip:
  "verify_commitment_addition c a ((c * a) mod p)
   \<and> verify_commitment_subtraction ((c * a) mod p) c a"
  by (simp add: verify_commitment_addition_def verify_commitment_subtraction_def)

section \<open>The ledger state machine\<close>

lemma p_pos: "0 < p"
  by (simp add: p_def)

lemma mod_exp_p_total: "\<exists>v. mod_exp b ex p = Inr v"
  using p_pos by (simp add: mod_exp_def)

lemma mod_inverse_p_total: "\<exists>v. mod_inverse x p = Inr v"
  unfolding mod_inverse_def by (rule mod_exp_p_total)

lemma bump_nonce_cases:
  "bump_nonce s a n = (if n = get_nonce s a + 1 then Inr (s\<lparr>nonces := (nonces s)(a \<mapsto> n)\<rparr>)
     else Inl (AssertionError ''Bad nonce''))"
  by (simp add: bump_nonce_def get_nonce_def Let_def)

lemmas op_defs = confidential_transfer_def confidential_approve_def confidential_transfer_from_def
  mint_def burn_def

lemma exec_guard_fails:
  "guard_failure e opn s = Some err \<Longrightarrow> exec e opn s = Raised err s"
  by (cases opn) (simp_all add: op_defs split: if_splits)

lemma exec_bad_nonce:
  "guard_failure e opn s = None \<Longrightarrow> nonce_of opn \<noteq> get_nonce s (caller e) + 1 \<Longrightarrow>
     exec e opn s = Raised (AssertionError ''Bad nonce'') s"
  by (cases opn) (simp_all add: op_defs bump_nonce_cases split: if_splits)

lemma check_failure_after_nonce:
  "check_failure e opn s = Some err \<Longrightarrow> \<not> before_nonce_write err"
  by (cases opn) (auto simp: before_nonce_write_def split: if_splits option.splits)

lemma guard_failure_before_nonce:
  "guard_failure e opn s = Some err \<Longrightarrow> before_nonce_write err"
  by (cases opn) (auto simp: before_nonce_write_def split: if_splits)

lemma exec_check_fails:
  assumes "guard_failure e opn s = None" "nonce_of opn = get_nonce s (caller e) + 1"
    "check_failure e opn s = Some err"
  shows "exec e opn s = Raised err (s\<lparr>nonces := (nonces s)(caller e \<mapsto> nonce_of opn)\<rparr>)"
  using assms
  by (cases opn)
     (auto simp: op_defs bump_nonce_cases Let_def split: if_splits option.splits)

lemma exec_checks_pass:
  assumes "guard_failure e opn s = None" "nonce_of opn = get_nonce s (caller e) + 1"
    "check_failure e opn s = None"
  shows "returned (exec e opn s)"
proof (cases opn)
  case (Burn fa am ac nf n)
  obtain v where v: "mod_inverse (ac mod p) p = Inr v"
    using mod_inverse_p_total by blast
  show ?thesis
    using assms
    by (auto simp: Burn burn_def bump_nonce_cases Let_def next_tx_def v
        split: if_splits option.splits)
qed (use assms in \<open>auto simp: op_defs bump_nonce_cases Let_def next_tx_def
        split: if_splits option.splits\<close>)

text \<open>
  C1, as the code has it.  The checks of an exported mutating operation run in the order
  of the source; \<open>first_failure\<close> is the first of them that fails.  When a check fails,
  be it the self-target or authorization guard, the nonce check, an existence check or
  an algebraic check, the operation raises that check's error, and the store it leaves
  behind differs from the store it started from in nothing but, possibly, the caller's
  nonce: no balance record, approval record, \<open>total_supply\<close>, \<open>supply_commitment\<close>,
  transaction counter or event has been written.  The nonce is untouched when the failing
  check is the self-target, authorization or nonce check; when an existence or algebraic
  check fails, \<open>bump_nonce\<close> has already stored the presented nonce.  When no check fails
  the operation returns, so every raise of an operation is the failure of one of its
  checks and leaves the store just described.
\<close>

theorem failed_call_writes_nonce_only:
  "(first_failure e opn s = Some err \<longrightarrow>
      exec e opn s = Raised err (if before_nonce_write err then s
                                 else s\<lparr>nonces := (nonces s)(caller e \<mapsto> nonce_of opn)\<rparr>))
   \<and> (first_failure e opn s = None \<longrightarrow> returned (exec e opn s))
   \<and> (exec e opn s = Raised err s' \<longrightarrow>
        first_failure e opn s = Some err
        \<and> s' = (if before_nonce_write err then s
                 else s\<lparr>nonces := (nonces s)(caller e \<mapsto> nonce_of opn)\<rparr>))"
proof -
  have a: "exec e opn s = Raised x (if before_nonce_write x then s
             else s\<lparr>nonces := (nonces s)(caller e \<mapsto> nonce_of opn)\<rparr>)"
    if "first_failure e opn s = Some x" for x
  proof (cases "guard_failure e opn s")
    case (Some g)
    with that have "x = g" by (simp add: first_failure_def)
    with Some show ?thesis
      by (simp add: exec_guard_fails guard_failure_before_nonce)
  next
    case None
    show ?thesis
    proof (cases "nonce_of opn = get_nonce s (caller e) + 1")
      case False
      with None that have "x = AssertionError ''Bad nonce''" by (simp add: first_failure_def)
      with None False show ?thesis
        by (simp add: exec_bad_nonce before_nonce_write_def)
    next
      case True
      with None that have c: "check_failure e opn s = Some x" by (simp add: first_failure_def)
      from exec_check_fails [OF None True c] check_failure_after_nonce [OF c]
      show ?thesis by simp
    qed
  qed
  have b: "returned (exec e opn s)" if "first_failure e opn s = None"
    using that exec_checks_pass [of e opn s]
    by (auto simp: first_failure_def split: option.splits if_splits)
  have c: "first_failure e opn s = Some err
        \<and> s' = (if before_nonce_write err then s
                 else s\<lparr>nonces := (nonces s)(caller e \<mapsto> nonce_of opn)\<rparr>)"
    if r: "exec e opn s = Raised err s'"
  proof (cases "first_failure e opn s")
    case None
    from b [OF None] r show ?thesis by simp
  next
    case (Some x)
    from a [OF Some] r have "x = err" and "s' = (if before_nonce_write x then s
             else s\<lparr>nonces := (nonces s)(caller e \<mapsto> nonce_of opn)\<rparr>)"
      by simp_all
    with Some show ?thesis by simp
  qed
  from a b c show ?thesis by blast
qed

text \<open>
  The theorem at two transfers from the seeded state: one whose sender relation fails,
  and one that passes every check.
\<close>

theorem failed_call_witness:
  "first_failure \<lparr>caller = ''alice'', block_num = 1\<rparr> (ConfidentialTransfer ''bob'' 2 5 7 1)
       (seed ''operator'') = Some (AssertionError ''Sender commitment mismatch'')
   \<and> exec \<lparr>caller = ''alice'', block_num = 1\<rparr> (ConfidentialTransfer ''bob'' 2 5 7 1) (seed ''operator'')
     = Raised (AssertionError ''Sender commitment mismatch'')
         ((seed ''operator'')\<lparr>nonces := (nonces (seed ''operator''))(''alice'' \<mapsto> 1)\<rparr>)
   \<and> first_failure \<lparr>caller = ''alice'', block_num = 1\<rparr> (ConfidentialTransfer ''bob'' 1 1 1 1)
       (seed ''operator'') = None
   \<and> returned (exec \<lparr>caller = ''alice'', block_num = 1\<rparr> (ConfidentialTransfer ''bob'' 1 1 1 1)
       (seed ''operator''))"
proof -
  have f: "first_failure \<lparr>caller = ''alice'', block_num = 1\<rparr> (ConfidentialTransfer ''bob'' 2 5 7 1)
       (seed ''operator'') = Some (AssertionError ''Sender commitment mismatch'')"
    by (simp add: first_failure_def get_nonce_def seed_def current_commitment_def
        verify_commitment_subtraction_def ZERO_COMMITMENT_def p_def)
  have n: "first_failure \<lparr>caller = ''alice'', block_num = 1\<rparr> (ConfidentialTransfer ''bob'' 1 1 1 1)
       (seed ''operator'') = None"
    by (simp add: first_failure_def get_nonce_def seed_def current_commitment_def
        verify_commitment_subtraction_def verify_commitment_addition_def ZERO_COMMITMENT_def p_def)
  have nb: "\<not> before_nonce_write (AssertionError ''Sender commitment mismatch'')"
    by (simp add: before_nonce_write_def)
  have 1: "exec \<lparr>caller = ''alice'', block_num = 1\<rparr> (ConfidentialTransfer ''bob'' 2 5 7 1) (seed ''operator'')
     = Raised (AssertionError ''Sender commitment mismatch'')
         ((seed ''operator'')\<lparr>nonces := (nonces (seed ''operator''))(''alice'' \<mapsto> 1)\<rparr>)"
    using failed_call_writes_nonce_only [where e = "\<lparr>caller = ''alice'', block_num = 1\<rparr>"
      and opn = "ConfidentialTransfer ''bob'' 2 5 7 1" and s = "seed ''operator''"
      and err = "AssertionError ''Sender commitment mismatch''", THEN conjunct1, THEN mp, OF f] nb
    by (simp del: exec.simps)
  have 2: "returned (exec \<lparr>caller = ''alice'', block_num = 1\<rparr> (ConfidentialTransfer ''bob'' 1 1 1 1)
       (seed ''operator''))"
    using failed_call_writes_nonce_only [where e = "\<lparr>caller = ''alice'', block_num = 1\<rparr>"
      and opn = "ConfidentialTransfer ''bob'' 1 1 1 1" and s = "seed ''operator''",
      THEN conjunct2, THEN conjunct1, THEN mp, OF n] .
  from f n 1 2 show ?thesis by (intro conjI)
qed

text \<open>
  C1 as stated fails: in the seeded state alice presents nonce 1 with commitments that
  violate the sender relation (1 is not 5 * 2 mod p).  The call raises
  \<open>Sender commitment mismatch\<close>, and the store it leaves holds nonce 1 for alice, who had
  nonce 0.
\<close>

theorem failed_check_alters_nonce:
  "exec \<lparr>caller = ''alice'', block_num = 1\<rparr> (ConfidentialTransfer ''bob'' 2 5 7 1) (seed ''operator'')
     = Raised (AssertionError ''Sender commitment mismatch'')
         ((seed ''operator'')\<lparr>nonces := [''alice'' \<mapsto> 1]\<rparr>)
   \<and> get_nonce (seed ''operator'') ''alice'' = 0
   \<and> get_nonce ((seed ''operator'')\<lparr>nonces := [''alice'' \<mapsto> 1]\<rparr>) ''alice'' = 1"
  by (simp add: confidential_transfer_def bump_nonce_cases get_nonce_def seed_def
      current_commitment_def verify_commitment_subtraction_def ZERO_COMMITMENT_def p_def)
lemmas eval_defs = op_defs bump_nonce_cases get_nonce_def seed_def current_commitment_def next_updates_def
  verify_commitment_subtraction_def verify_commitment_addition_def ZERO_COMMITMENT_def
  write_balance_def next_tx_def emit_def Let_def get_balance_commitment_def supply_cmt_or_zero_def

lemma in_field_mod: "in_field (x mod p)"
  using p_pos by (simp add: in_field_def)

lemma step_in_field:
  assumes "exec e opn s = Returned s'" "debit_in_field opn"
    and "\<forall>a r. balance_commitments s a = Some r \<longrightarrow> in_field (commitment r)"
    and "balance_commitments s' a = Some r"
  shows "in_field (commitment r)"
proof (cases opn)
  case (ConfidentialTransfer to ac ns nr n)
  with assms show ?thesis
    by (auto simp: eval_defs in_field_mod split: if_splits prod.splits)
next
  case (ConfidentialApprove sp ac n)
  with assms show ?thesis
    by (auto simp: eval_defs split: if_splits prod.splits)
next
  case (ConfidentialTransferFrom owner to ac no nr na n)
  with assms show ?thesis
    by (auto simp: eval_defs in_field_mod split: if_splits prod.splits option.splits)
next
  case (Mint to am ac nr n)
  with assms show ?thesis
    by (auto simp: eval_defs in_field_mod split: if_splits prod.splits)
next
  case (Burn fa am ac nf n)
  with assms show ?thesis
    by (auto simp: eval_defs in_field_mod split: if_splits prod.splits option.splits sum.splits)
qed

text \<open>
  C3, amended: in every state reached from the seeded state by returning operations
  whose submitted debit-side commitment lies in \<open>[0, p)\<close>, the commitment of every stored
  balance record lies in \<open>[0, p)\<close>.  (A credited record always does: the ledger accepts
  only \<open>(old * amount) mod p\<close> for it.)
\<close>

theorem reachable_commitments_in_field:
  assumes "reachable debit_in_field ctx_caller s" "balance_commitments s a = Some r"
  shows "in_field (commitment r)"
  using assms
proof (induction arbitrary: a r rule: reachable.induct)
  case reachable_seed
  then show ?case by (simp add: seed_def)
next
  case (reachable_step s opn e s')
  show ?case
    by (rule step_in_field [OF reachable_step.hyps(3) reachable_step.hyps(2) _ reachable_step.prems])
       (use reachable_step.IH in blast)
qed

text \<open>
  C3 as stated fails: the subtraction check reduces its right-hand side only, so from
  the seeded state alice's transfer with amount commitment 1 and new sender commitment
  \<open>p + 1\<close> returns, and her stored commitment is \<open>p + 1\<close>, outside the field.
\<close>

theorem out_of_field_commitment_reachable:
  "reachable (\<lambda>opn. True) ''operator''
     (store_of (exec \<lparr>caller = ''alice'', block_num = 1\<rparr>
        (ConfidentialTransfer ''bob'' 1 (p + 1) 1 1) (seed ''operator'')))
   \<and> view_commitment (get_balance_commitment
        (store_of (exec \<lparr>caller = ''alice'', block_num = 1\<rparr>
           (ConfidentialTransfer ''bob'' 1 (p + 1) 1 1) (seed ''operator''))) ''alice'') = p + 1
   \<and> \<not> in_field (p + 1)"
proof -
  let ?e = "\<lparr>caller = ''alice'', block_num = 1\<rparr>"
  let ?op = "ConfidentialTransfer ''bob'' 1 (p + 1) 1 1"
  have m: "(p + 1) mod p = 1" "1 mod p = 1"
    by (simp_all add: p_def)
  have r: "returned (exec ?e ?op (seed ''operator''))"
    by (simp add: eval_defs m)
  then obtain s' where s': "exec ?e ?op (seed ''operator'') = Returned s'"
    by (cases "exec ?e ?op (seed ''operator'')") auto
  have "reachable (\<lambda>opn. True) ''operator'' s'"
    by (rule reachable_step [OF reachable_seed _ s']) simp
  moreover have "view_commitment (get_balance_commitment (store_of (exec ?e ?op (seed ''operator''))) ''alice'') = p + 1"
    by (simp add: eval_defs m)
  ultimately show ?thesis
    by (simp add: s' in_field_def del: exec.simps)
qed

text \<open>The amended invariant at the state after one mint.\<close>

theorem reachable_commitments_witness:
  "reachable debit_in_field ''operator''
     (store_of (exec \<lparr>caller = ''operator'', block_num = 1\<rparr> (Mint ''alice'' 5 7 7 1) (seed ''operator'')))
   \<and> balance_commitments
        (store_of (exec \<lparr>caller = ''operator'', block_num = 1\<rparr> (Mint ''alice'' 5 7 7 1) (seed ''operator'')))
        ''alice'' = Some \<lparr>commitment = 7, last_updated = 1, updates = 1\<rparr>
   \<and> in_field 7"
proof -
  let ?e = "\<lparr>caller = ''operator'', block_num = 1\<rparr>"
  let ?op = "Mint ''alice'' 5 7 7 1"
  have m: "7 mod p = 7"
    by (simp add: p_def)
  have r: "returned (exec ?e ?op (seed ''operator''))"
    by (simp add: eval_defs m)
  then obtain s' where s': "exec ?e ?op (seed ''operator'') = Returned s'"
    by (cases "exec ?e ?op (seed ''operator'')") auto
  have re: "reachable debit_in_field ''operator'' s'"
    by (rule reachable_step [OF reachable_seed _ s']) simp
  have b: "balance_commitments (store_of (exec ?e ?op (seed ''operator''))) ''alice''
      = Some \<lparr>commitment = 7, last_updated = 1, updates = 1\<rparr>"
    by (simp add: eval_defs m)
  then have b': "balance_commitments s' ''alice'' = Some \<lparr>commitment = 7, last_updated = 1, updates = 1\<rparr>"
    by (simp add: s' del: exec.simps)
  from reachable_commitments_in_field [OF re b'] re b show ?thesis
    by (simp add: s' del: exec.simps)
qed

text \<open>
  C4, amended: after a \<open>confidential_transfer_from\<close> that returns, the owner's and the
  receiver's balance records hold the submitted new commitments, \<open>last_updated\<close> equal to
  the current height and \<open>updates\<close> incremented (1 for a new receiver); the approval
  record of (owner, caller) holds the new allowance commitment and keeps the
  \<open>approved_at\<close> it had before the call.
\<close>

theorem transfer_from_writes:
  assumes "confidential_transfer_from e owner to ac no nr na n s = Returned s'"
  shows "\<exists>owner_data approval.
           balance_commitments s owner = Some owner_data
         \<and> approvals s (owner, caller e) = Some approval
         \<and> balance_commitments s' owner
             = Some \<lparr>commitment = no, last_updated = block_num e, updates = updates owner_data + 1\<rparr>
         \<and> balance_commitments s' to
             = Some \<lparr>commitment = nr, last_updated = block_num e,
                     updates = next_updates (balance_commitments s to)\<rparr>
         \<and> approvals s' (owner, caller e)
             = Some \<lparr>approval_commitment = na, approved_at = approved_at approval\<rparr>"
  using assms
  by (auto simp: confidential_transfer_from_def bump_nonce_cases write_balance_def next_tx_def
      emit_def Let_def split: if_splits prod.splits option.splits)

text \<open>
  C4 as stated fails: in the scenario the approval is given at height 2 and spent at
  height 3, and the approval record still reads \<open>approved_at = 2\<close> afterwards.
\<close>

theorem transfer_from_keeps_approved_at:
  "returned (run_calls scenario_d (seed ''operator''))
   \<and> approvals (store_of (run_calls scenario_d (seed ''operator''))) (''alice'', ''bob'')
       = Some \<lparr>approval_commitment = 1, approved_at = 2\<rparr>"
proof -
  have m: "(1::int) mod p = 1"
    by (simp add: p_def)
  show ?thesis
    by (simp add: scenario_d_def eval_defs m)
qed


text \<open>The amended claim at the last call of the scenario.\<close>

theorem transfer_from_writes_witness:
  "returned (run_calls scenario_d (seed ''operator''))
   \<and> balance_commitments (store_of (run_calls scenario_d (seed ''operator''))) ''alice''
       = Some \<lparr>commitment = 1, last_updated = 3, updates = 2\<rparr>
   \<and> balance_commitments (store_of (run_calls scenario_d (seed ''operator''))) ''charlie''
       = Some \<lparr>commitment = 1, last_updated = 3, updates = 1\<rparr>"
proof -
  let ?s2 = "store_of (run_calls (butlast scenario_d) (seed ''operator''))"
  let ?e = "\<lparr>caller = ''bob'', block_num = 3\<rparr>"
  have m: "(1::int) mod p = 1"
    by (simp add: p_def)
  have two: "run_calls (butlast scenario_d) (seed ''operator'') = Returned ?s2"
    by (simp add: scenario_d_def eval_defs m)
  have "returned (confidential_transfer_from ?e ''alice'' ''charlie'' 1 1 1 1 1 ?s2)"
    by (simp add: scenario_d_def eval_defs m)
  then obtain s3 where s3: "confidential_transfer_from ?e ''alice'' ''charlie'' 1 1 1 1 1 ?s2 = Returned s3"
    by (cases "confidential_transfer_from ?e ''alice'' ''charlie'' 1 1 1 1 1 ?s2") auto
  have all: "run_calls scenario_d (seed ''operator'') = Returned s3"
    using s3 by (simp add: scenario_d_def eval_defs m)
  have before: "balance_commitments ?s2 ''alice'' = Some \<lparr>commitment = 1, last_updated = 1, updates = 1\<rparr>"
    "balance_commitments ?s2 ''charlie'' = None"
    by (simp_all add: scenario_d_def eval_defs m)
  from transfer_from_writes [OF s3] before show ?thesis
    by (auto simp: all next_updates_def)
qed

lemma bump_then:
  "get_nonce (s\<lparr>nonces := (nonces s)(a \<mapsto> n)\<rparr>) a = n"
  by (simp add: get_nonce_def)

lemma exec_good_nonce:
  assumes "guard_failure e opn s = None" "nonce_of opn = get_nonce s (caller e) + 1"
  shows "nonces (store_of (exec e opn s)) = (nonces s)(caller e \<mapsto> nonce_of opn)
         \<and> (\<forall>s'. exec e opn s \<noteq> Raised (AssertionError ''Bad nonce'') s')"
proof (cases opn)
  case (ConfidentialTransfer to ac ns nr n)
  with assms show ?thesis
    by (simp add: confidential_transfer_def bump_nonce_cases write_balance_def next_tx_def emit_def
        Let_def split: if_splits)
next
  case (ConfidentialApprove sp ac n)
  with assms show ?thesis
    by (simp add: confidential_approve_def bump_nonce_cases next_tx_def emit_def Let_def)
next
  case (ConfidentialTransferFrom owner to ac no nr na n)
  with assms show ?thesis
    by (simp add: confidential_transfer_from_def bump_nonce_cases write_balance_def next_tx_def emit_def
        Let_def split: if_splits option.splits)
next
  case (Mint to am ac nr n)
  with assms show ?thesis
    by (simp add: mint_def bump_nonce_cases write_balance_def next_tx_def emit_def
        Let_def split: if_splits)
next
  case (Burn fa am ac nf n)
  with assms mod_inverse_p_total[of "ac mod p"] show ?thesis
    by (auto simp: burn_def bump_nonce_cases write_balance_def next_tx_def emit_def
        Let_def split: if_splits option.splits)
qed

text \<open>
  C5, amended: let \<open>n\<close> be the caller's stored nonce (0 when absent).  A mutating call
  whose first guard fails raises that guard's error, whatever nonce it presents.  A call
  that passes the guard and presents a nonce other than \<open>n + 1\<close> raises \<open>Bad nonce\<close> and
  leaves the store as it was.  A call that passes the guard and presents \<open>n + 1\<close> does
  not raise \<open>Bad nonce\<close>, and the store it leaves holds \<open>n + 1\<close> as the caller's nonce.
\<close>

theorem nonce_discipline:
  "(case guard_failure e opn s of
      Some err \<Rightarrow> exec e opn s = Raised err s
    | None \<Rightarrow>
        if nonce_of opn = get_nonce s (caller e) + 1
        then get_nonce (store_of (exec e opn s)) (caller e) = get_nonce s (caller e) + 1
             \<and> (\<forall>s'. exec e opn s \<noteq> Raised (AssertionError ''Bad nonce'') s')
        else exec e opn s = Raised (AssertionError ''Bad nonce'') s)"
proof (cases "guard_failure e opn s")
  case (Some err)
  then show ?thesis
    by (simp add: exec_guard_fails)
next
  case None
  show ?thesis
  proof (cases "nonce_of opn = get_nonce s (caller e) + 1")
    case True
    from exec_good_nonce [OF None True] have
      "nonces (store_of (exec e opn s)) (caller e) = Some (nonce_of opn)"
      and "\<forall>s'. exec e opn s \<noteq> Raised (AssertionError ''Bad nonce'') s'"
      by simp_all
    then show ?thesis
      using None True by (simp add: get_nonce_def [of "store_of (exec e opn s)"])
  next
    case False
    then show ?thesis
      using None by (simp add: exec_bad_nonce)
  qed
qed

text \<open>
  C5 as stated fails: alice, whose stored nonce is 0, calls \<open>confidential_transfer\<close> to
  herself with nonce 5.  The call fails, but with \<open>Cannot transfer to self\<close>, which is
  checked before the nonce, and not with the nonce error.
\<close>

theorem bad_nonce_hidden_by_guard:
  "get_nonce (seed ''operator'') ''alice'' = 0
   \<and> exec \<lparr>caller = ''alice'', block_num = 1\<rparr> (ConfidentialTransfer ''alice'' 1 1 1 5) (seed ''operator'')
       = Raised (AssertionError ''Cannot transfer to self'') (seed ''operator'')
   \<and> AssertionError ''Cannot transfer to self'' \<noteq> AssertionError ''Bad nonce''"
  by (simp add: confidential_transfer_def get_nonce_def seed_def)

text \<open>The amended claim at two mints by the operator, with nonce 2 and with nonce 1.\<close>

theorem nonce_discipline_witness:
  "get_nonce (seed ''operator'') ''operator'' = 0
   \<and> exec \<lparr>caller = ''operator'', block_num = 1\<rparr> (Mint ''alice'' 5 7 7 2) (seed ''operator'')
       = Raised (AssertionError ''Bad nonce'') (seed ''operator'')
   \<and> get_nonce (store_of (exec \<lparr>caller = ''operator'', block_num = 1\<rparr> (Mint ''alice'' 5 7 7 1)
        (seed ''operator''))) ''operator'' = 1"
  using nonce_discipline [where e = "\<lparr>caller = ''operator'', block_num = 1\<rparr>"
      and opn = "Mint ''alice'' 5 7 7 2" and s = "seed ''operator''"]
    nonce_discipline [where e = "\<lparr>caller = ''operator'', block_num = 1\<rparr>"
      and opn = "Mint ''alice'' 5 7 7 1" and s = "seed ''operator''"]
  by (simp add: get_nonce_def seed_def del: exec.simps)

text \<open>
  C8, amended: from the freshly seeded state, the operator's mint of 10.5 to alice with
  nonce 1 at height 1, any amount commitment \<open>ac\<close> and new receiver commitment
  \<open>(1 * ac) mod p\<close> returns; alice's record then has commitment \<open>ac mod p\<close>,
  \<open>last_updated = 1\<close> and \<open>updates = 1\<close>, \<open>total_supply\<close> is 10.5 and \<open>supply_commitment\<close>
  is \<open>ac mod p\<close>.  These are \<open>ac\<close> itself exactly when \<open>ac\<close> lies in \<open>[0, p)\<close>.
\<close>

theorem scenario_a_mint:
  "returned (mint \<lparr>caller = opr, block_num = 1\<rparr> ''alice'' (21 / 2) ac ((1 * ac) mod p) 1 (seed opr))
   \<and> get_balance_commitment
        (store_of (mint \<lparr>caller = opr, block_num = 1\<rparr> ''alice'' (21 / 2) ac ((1 * ac) mod p) 1 (seed opr)))
        ''alice''
       = \<lparr>exists = True, view_commitment = ac mod p, view_last_updated = 1, view_updates = 1\<rparr>
   \<and> total_supply (metadata
        (store_of (mint \<lparr>caller = opr, block_num = 1\<rparr> ''alice'' (21 / 2) ac ((1 * ac) mod p) 1 (seed opr))))
       = 21 / 2
   \<and> supply_commitment (metadata
        (store_of (mint \<lparr>caller = opr, block_num = 1\<rparr> ''alice'' (21 / 2) ac ((1 * ac) mod p) 1 (seed opr))))
       = ac mod p
   \<and> (ac mod p = ac) = (0 \<le> ac \<and> ac < p)"
proof -
  have "(ac mod p = ac) = (0 \<le> ac \<and> ac < p)"
    using p_pos by (metis mod_pos_pos_trivial pos_mod_bound pos_mod_sign)
  then show ?thesis
    by (simp add: eval_defs)
qed

text \<open>
  C8 as stated fails for an amount commitment outside the field: with \<open>ac = p\<close> the mint
  returns, and both alice's commitment and \<open>supply_commitment\<close> are 0, not \<open>p\<close>.
\<close>

theorem scenario_a_out_of_field:
  "returned (mint \<lparr>caller = ''operator'', block_num = 1\<rparr> ''alice'' (21 / 2) p ((1 * p) mod p) 1
      (seed ''operator''))
   \<and> view_commitment (get_balance_commitment
        (store_of (mint \<lparr>caller = ''operator'', block_num = 1\<rparr> ''alice'' (21 / 2) p ((1 * p) mod p) 1
           (seed ''operator''))) ''alice'') = 0
   \<and> supply_commitment (metadata
        (store_of (mint \<lparr>caller = ''operator'', block_num = 1\<rparr> ''alice'' (21 / 2) p ((1 * p) mod p) 1
           (seed ''operator'')))) = 0
   \<and> p \<noteq> 0"
  using p_pos by (simp add: eval_defs)

text \<open>
  C10: \<open>mint\<close> checks nothing about the amount commitment but the multiplicative
  relation.  Called by the operator with the right nonce, \<open>amount_commitment = 0\<close> and
  \<open>new_receiver_commitment = 0\<close>, it returns for any receiver, any amount and any prior
  state, and the receiver's stored commitment is 0.
\<close>

theorem mint_accepts_zero_commitment:
  assumes "caller e = operator (metadata s)" "nonce = get_nonce s (caller e) + 1"
  shows "returned (mint e to amount 0 0 nonce s)
         \<and> (\<exists>r. balance_commitments (store_of (mint e to amount 0 0 nonce s)) to = Some r
                 \<and> commitment r = 0)"
  using assms by (simp add: eval_defs)

text \<open>The theorem at the seeded state.\<close>

theorem mint_accepts_zero_commitment_witness:
  "caller \<lparr>caller = ''operator'', block_num = 1\<rparr> = operator (metadata (seed ''operator''))
   \<and> (1::int) = get_nonce (seed ''operator'') ''operator'' + 1
   \<and> returned (mint \<lparr>caller = ''operator'', block_num = 1\<rparr> ''alice'' 5 0 0 1 (seed ''operator''))
   \<and> view_commitment (get_balance_commitment
        (store_of (mint \<lparr>caller = ''operator'', block_num = 1\<rparr> ''alice'' 5 0 0 1 (seed ''operator'')))
        ''alice'') = 0"
proof -
  have a: "caller \<lparr>caller = ''operator'', block_num = 1\<rparr> = operator (metadata (seed ''operator''))"
    by (simp add: seed_def)
  have b: "(1::int) = get_nonce (seed ''operator'') (caller \<lparr>caller = ''operator'', block_num = 1\<rparr>) + 1"
    by (simp add: seed_def get_nonce_def)
  from mint_accepts_zero_commitment [OF a b, of "''alice''" 5] a b show ?thesis
    by (auto simp: get_balance_commitment_def)
qed

end
